theory Spec2Isabelle
  imports Complex_Main "HOL-Library.Word" "HOL-Library.AList"
begin

section \<open>Unified agent system: data model\<close>

text \<open>
  The development follows \<^verbatim>\<open>src/core/unified_agent_system.py\<close> class by class.
  Python exceptions are values: a function that can raise returns
  \<open>py_exception + 'a\<close> next to the state it leaves behind, because a mutation made
  before a raise is not undone.  Dictionaries with string keys and heterogeneous
  values (\<^verbatim>\<open>Dict[str, Any]\<close>) are values of the type \<open>json\<close>, key order as written
  in the source.
\<close>

datatype AgentType =
  PLANNING | CODING | TESTING | DEPLOYMENT | RESEARCH | UI_GENERATION | BACKEND | ORCHESTRATOR

fun AgentType_value :: "AgentType \<Rightarrow> string" where
  "AgentType_value PLANNING = ''planning_agent''"
| "AgentType_value CODING = ''coding_agent''"
| "AgentType_value TESTING = ''testing_agent''"
| "AgentType_value DEPLOYMENT = ''deployment_agent''"
| "AgentType_value RESEARCH = ''research_agent''"
| "AgentType_value UI_GENERATION = ''ui_agent''"
| "AgentType_value BACKEND = ''backend_agent''"
| "AgentType_value ORCHESTRATOR = ''orchestrator_agent''"

datatype ExecutionMode = OPENHANDS | MANUS | EMERGENT | HYBRID

fun ExecutionMode_value :: "ExecutionMode \<Rightarrow> string" where
  "ExecutionMode_value OPENHANDS = ''openhands''"
| "ExecutionMode_value MANUS = ''manus''"
| "ExecutionMode_value EMERGENT = ''emergent''"
| "ExecutionMode_value HYBRID = ''hybrid''"

datatype exc_class =
  ValueError | UnboundLocalError | OSError | PermissionError | UnicodeDecodeError
  | UnicodeEncodeError | TypeError | ZeroDivisionError

text \<open>An exception object: its class and the text \<^verbatim>\<open>str(e)\<close> gives.\<close>

datatype py_exception = Raise exc_class string

fun str_exc :: "py_exception \<Rightarrow> string" where
  "str_exc (Raise c m) = m"

datatype json =
  JNone | JBool bool | JInt int | JFloat real | JStr string
  | JList "json list" | JDict "(string \<times> json) list"

record AgentAction =
  a_id :: string
  agent_type :: AgentType
  action_type :: string
  description :: string
  timestamp :: real
  input_data :: "json option"
  output_data :: "json option"
  execution_time :: real
  success :: bool
  error_message :: "string option"

text \<open>
  The dataclass constructor with its defaults: \<^verbatim>\<open>input_data=None\<close>,
  \<^verbatim>\<open>output_data=None\<close>, \<^verbatim>\<open>execution_time=0.0\<close>, \<^verbatim>\<open>success=True\<close>,
  \<^verbatim>\<open>error_message=None\<close>.
\<close>

definition AgentAction_init :: "string \<Rightarrow> AgentType \<Rightarrow> string \<Rightarrow> string \<Rightarrow> real \<Rightarrow> AgentAction" where
  "AgentAction_init i ty act descr ts =
     \<lparr>a_id = i, agent_type = ty, action_type = act, description = descr, timestamp = ts,
      input_data = None, output_data = None, execution_time = 0, success = True,
      error_message = None\<rparr>"

record TaskContext =
  task_id :: string
  user_id :: string
  task_description :: string
  execution_mode :: ExecutionMode
  priority :: int
  assigned_agents :: "AgentType list"
  dependencies :: "string list"
  workspace_path :: "string option"
  git_repo :: "string option"
  environment_config :: "json option"
  created_at :: real

definition opt_json :: "('a \<Rightarrow> json) \<Rightarrow> 'a option \<Rightarrow> json" where
  "opt_json f x = (case x of None \<Rightarrow> JNone | Some v \<Rightarrow> f v)"

text \<open>\<^verbatim>\<open>asdict(task_context)\<close>: the fields in declaration order; an enum member is
  shown by its value.\<close>

definition asdict_TaskContext :: "TaskContext \<Rightarrow> json" where
  "asdict_TaskContext t = JDict
     [(''task_id'', JStr (task_id t)),
      (''user_id'', JStr (user_id t)),
      (''description'', JStr (task_description t)),
      (''execution_mode'', JStr (ExecutionMode_value (execution_mode t))),
      (''priority'', JInt (priority t)),
      (''assigned_agents'', JList (map (\<lambda>a. JStr (AgentType_value a)) (assigned_agents t))),
      (''dependencies'', JList (map JStr (dependencies t))),
      (''workspace_path'', opt_json JStr (workspace_path t)),
      (''git_repo'', opt_json JStr (git_repo t)),
      (''environment_config'', opt_json (\<lambda>j. j) (environment_config t)),
      (''created_at'', JFloat (created_at t))]"

definition asdict_AgentAction :: "AgentAction \<Rightarrow> json" where
  "asdict_AgentAction a = JDict
     [(''id'', JStr (a_id a)),
      (''agent_type'', JStr (AgentType_value (agent_type a))),
      (''action_type'', JStr (action_type a)),
      (''description'', JStr (description a)),
      (''timestamp'', JFloat (timestamp a)),
      (''input_data'', opt_json (\<lambda>j. j) (input_data a)),
      (''output_data'', opt_json (\<lambda>j. j) (output_data a)),
      (''execution_time'', JFloat (execution_time a)),
      (''success'', JBool (success a)),
      (''error_message'', opt_json JStr (error_message a))]"

subsection \<open>Bytes and text\<close>

text \<open>
  File contents are bytes; a Python \<^verbatim>\<open>str\<close> read from a file is a list of code points.
  \<open>utf8_decode\<close> is the strict UTF-8 decoder behind \<^verbatim>\<open>encoding='utf-8'\<close>: it rejects
  stray continuation bytes, overlong forms, surrogates and code points above
  \<^verbatim>\<open>0x10FFFF\<close> (\<open>None\<close> stands for \<^verbatim>\<open>UnicodeDecodeError\<close>).
\<close>

type_synonym byte = "8 word"
type_synonym ustr = "nat list"

definition is_cont :: "nat \<Rightarrow> bool" where
  "is_cont b \<longleftrightarrow> 128 \<le> b \<and> b < 192"

fun utf8_dec :: "nat list \<Rightarrow> ustr option" where
  "utf8_dec [] = Some []"
| "utf8_dec (b0 # bs) =
     (if b0 < 128 then map_option ((#) b0) (utf8_dec bs)
      else if 194 \<le> b0 \<and> b0 < 224 then
        (case bs of
           b1 # r \<Rightarrow>
             if is_cont b1
             then map_option ((#) ((b0 - 192) * 64 + (b1 - 128))) (utf8_dec r)
             else None
         | _ \<Rightarrow> None)
      else if 224 \<le> b0 \<and> b0 < 240 then
        (case bs of
           b1 # b2 # r \<Rightarrow>
             (let cp = (b0 - 224) * 4096 + (b1 - 128) * 64 + (b2 - 128)
              in if is_cont b1 \<and> is_cont b2 \<and> 2048 \<le> cp \<and> \<not> (55296 \<le> cp \<and> cp < 57344)
                 then map_option ((#) cp) (utf8_dec r)
                 else None)
         | _ \<Rightarrow> None)
      else if 240 \<le> b0 \<and> b0 < 245 then
        (case bs of
           b1 # b2 # b3 # r \<Rightarrow>
             (let cp = (b0 - 240) * 262144 + (b1 - 128) * 4096 + (b2 - 128) * 64 + (b3 - 128)
              in if is_cont b1 \<and> is_cont b2 \<and> is_cont b3 \<and> 65536 \<le> cp \<and> cp < 1114112
                 then map_option ((#) cp) (utf8_dec r)
                 else None)
         | _ \<Rightarrow> None)
      else None)"

definition utf8_decode :: "byte list \<Rightarrow> ustr option" where
  "utf8_decode bs = utf8_dec (map unat bs)"

text \<open>The encoder used when a \<^verbatim>\<open>str\<close> is written with \<^verbatim>\<open>encoding='utf-8'\<close>; a
  surrogate or an out-of-range code point is \<^verbatim>\<open>UnicodeEncodeError\<close> (\<open>None\<close>).\<close>

definition utf8_enc1 :: "nat \<Rightarrow> nat list option" where
  "utf8_enc1 cp =
     (if cp < 128 then Some [cp]
      else if cp < 2048 then Some [192 + cp div 64, 128 + cp mod 64]
      else if 55296 \<le> cp \<and> cp < 57344 then None
      else if cp < 65536 then
        Some [224 + cp div 4096, 128 + (cp div 64) mod 64, 128 + cp mod 64]
      else if cp < 1114112 then
        Some [240 + cp div 262144, 128 + (cp div 4096) mod 64, 128 + (cp div 64) mod 64,
              128 + cp mod 64]
      else None)"

fun utf8_enc :: "ustr \<Rightarrow> nat list option" where
  "utf8_enc [] = Some []"
| "utf8_enc (c # cs) =
     (case utf8_enc1 c of
        None \<Rightarrow> None
      | Some bs \<Rightarrow> map_option ((@) bs) (utf8_enc cs))"

definition utf8_encode :: "ustr \<Rightarrow> byte list option" where
  "utf8_encode t = map_option (map of_nat) (utf8_enc t)"

text \<open>
  Text mode with the default \<^verbatim>\<open>newline=None\<close>.  On reading, universal newlines are
  on: \<^verbatim>\<open>'\r\n'\<close> and a lone \<^verbatim>\<open>'\r'\<close> both arrive as \<^verbatim>\<open>'\n'\<close>.  On writing,
  every \<^verbatim>\<open>'\n'\<close> is replaced by \<^verbatim>\<open>os.linesep\<close>.
\<close>

fun universal_newlines :: "ustr \<Rightarrow> ustr" where
  "universal_newlines [] = []"
| "universal_newlines (c # cs) =
     (if c = 13 then
        (case cs of
           d # ds \<Rightarrow> if d = 10 then 10 # universal_newlines ds else 10 # universal_newlines cs
         | [] \<Rightarrow> [10])
      else c # universal_newlines cs)"

fun write_newlines :: "ustr \<Rightarrow> ustr \<Rightarrow> ustr" where
  "write_newlines linesep [] = []"
| "write_newlines linesep (c # cs) =
     (if c = 10 then linesep @ write_newlines linesep cs
      else c # write_newlines linesep cs)"

definition posix_linesep :: ustr where
  "posix_linesep = [10]"

subsection \<open>Session state and snapshots\<close>

text \<open>
  A filesystem path is its list of components (\<^verbatim>\<open>pathlib.Path.parts\<close>); \<^verbatim>\<open>p / q\<close>
  for a relative \<open>q\<close> is \<open>p @ q\<close>, and \<^verbatim>\<open>str(p)\<close> joins the components with
  \<^verbatim>\<open>/\<close>.  The keys of a snapshot's \<^verbatim>\<open>files\<close> dictionary are relative paths in this
  form.
\<close>

type_synonym path = "string list"

fun str_path :: "path \<Rightarrow> string" where
  "str_path [] = ''.''"
| "str_path [c] = c"
| "str_path (c # cs) = c @ ''/'' @ str_path cs"

record structure_item =
  item_path :: path
  item_is_dir :: bool
  item_size :: nat

record WorkspaceSnapshot =
  snap_files :: "(path \<times> ustr) list"
  snap_structure :: "structure_item list"
  snap_git_status :: "json option"
  snap_timestamp :: real

text \<open>\<open>workspace_snapshot = None\<close> is the empty dictionary \<^verbatim>\<open>{}\<close> a new session
  starts with.\<close>

record SessionState =
  s_session_id :: string
  s_user_id :: string
  workspace_snapshot :: "WorkspaceSnapshot option"
  agent_memory :: "(string \<times> json) list"
  conversation_history :: "json list"
  active_tasks :: "TaskContext list"
  transparency_log :: "AgentAction list"
  s_created_at :: real
  checkpoint_name :: "string option"

section \<open>The environment\<close>

text \<open>
  What the operating system, the clock, the event loop and the logging module do is
  the record \<open>world\<close>: the answers of the outside (which outcome a command has, what
  \<^verbatim>\<open>rglob\<close> lists, what a read of a file gives) are fields that the model only reads;
  the effects of the program (files written, processes killed, tasks handed to the
  event loop, messages logged with \<^verbatim>\<open>logger.error\<close>) are fields it updates.
\<close>

text \<open>
  A child process as the operating system runs it: its id, how long it runs when left
  alone (\<open>None\<close>: it never ends by itself), its return code and its two output streams
  decoded as UTF-8 (\<open>None\<close>: the bytes are not valid UTF-8).
\<close>

record process =
  pid :: nat
  run_time :: "real option"
  returncode :: int
  proc_stdout :: "string option"
  proc_stderr :: "string option"

text \<open>\<^verbatim>\<open>asyncio.create_subprocess_shell\<close>: a launch failure, or a process.\<close>

datatype proc_outcome = SpawnError py_exception | Spawned process

text \<open>\<^verbatim>\<open>asyncio.wait_for(process.communicate(), timeout=timeout)\<close>: the outputs when
  the process ends within \<open>timeout\<close> seconds, \<^verbatim>\<open>asyncio.TimeoutError\<close> when it runs
  longer.\<close>

datatype wait_outcome = Communicated | WaitTimeout

definition wait_for :: "process \<Rightarrow> int \<Rightarrow> wait_outcome" where
  "wait_for p timeout =
     (case run_time p of
        None \<Rightarrow> WaitTimeout
      | Some d \<Rightarrow> if real_of_int timeout < d then WaitTimeout else Communicated)"

text \<open>The container strategy: any exception of \<^verbatim>\<open>containers.run\<close>, \<^verbatim>\<open>wait\<close>,
  \<^verbatim>\<open>logs\<close> or \<^verbatim>\<open>decode\<close>, or a status code with the decoded logs.\<close>

datatype container_outcome = ContainerError py_exception | ContainerExit int string

text \<open>Opening and reading one file: its bytes, \<^verbatim>\<open>PermissionError\<close>, or another
  \<^verbatim>\<open>OSError\<close> (the file vanished after it was listed, an I/O error).\<close>

datatype read_outcome = ReadBytes "byte list" | ReadPermissionError | ReadOSError string

text \<open>One entry of \<^verbatim>\<open>workspace.rglob("*")\<close>, with what \<^verbatim>\<open>is_file()\<close>,
  \<^verbatim>\<open>is_dir()\<close>, \<^verbatim>\<open>stat().st_size\<close> and a read of it answer.\<close>

record entry =
  e_path :: path
  e_is_file :: bool
  e_is_dir :: bool
  e_size :: nat
  e_read :: read_outcome

text \<open>A stored session document: a file that \<^verbatim>\<open>_load_session\<close> cannot parse or
  rebuild, or the state it holds.\<close>

datatype stored = Corrupt | Doc SessionState

record world =
  ticks :: nat
  uuid_of :: "nat \<Rightarrow> string"
  time_of :: "nat \<Rightarrow> real"
  subprocess_of :: "string \<Rightarrow> path \<Rightarrow> proc_outcome"
  container_of :: "string \<Rightarrow> string \<Rightarrow> container_outcome"
  rglob_of :: "path \<Rightarrow> entry list"
  git_status_of :: "path \<Rightarrow> json"
  linesep :: ustr
  fs_files :: "path \<rightharpoonup> byte list"
  fs_dirs :: "path set"
  storage :: "path \<rightharpoonup> stored"
  killed :: "nat list"
  loop_tasks :: "(string \<times> nat \<times> AgentAction) list"
  error_log :: "string list"

text \<open>\<^verbatim>\<open>str(uuid.uuid4())\<close>, \<^verbatim>\<open>time.time()\<close> and \<^verbatim>\<open>datetime.now()\<close> each take the
  next answer of the outside.\<close>

definition uuid4 :: "world \<Rightarrow> string \<times> world" where
  "uuid4 w = (uuid_of w (ticks w), w\<lparr>ticks := Suc (ticks w)\<rparr>)"

definition time_time :: "world \<Rightarrow> real \<times> world" where
  "time_time w = (time_of w (ticks w), w\<lparr>ticks := Suc (ticks w)\<rparr>)"

definition datetime_now :: "world \<Rightarrow> real \<times> world" where
  "datetime_now w = (time_of w (ticks w), w\<lparr>ticks := Suc (ticks w)\<rparr>)"

definition logger_error :: "string \<Rightarrow> world \<Rightarrow> world" where
  "logger_error m w = w\<lparr>error_log := error_log w @ [m]\<rparr>"

section \<open>SandboxedExecutor\<close>

record SandboxedExecutor =
  ex_workspace_path :: path
  docker_client :: bool

definition execution_result ::
  "string \<Rightarrow> bool \<Rightarrow> string \<Rightarrow> string \<Rightarrow> int \<Rightarrow> json \<Rightarrow> json" where
  "execution_result execution_id ok out err code t = JDict
     [(''execution_id'', JStr execution_id),
      (''success'', JBool ok),
      (''stdout'', JStr out),
      (''stderr'', JStr err),
      (''exit_code'', JInt code),
      (''execution_time'', t)]"

text \<open>
  \<^verbatim>\<open>_execute_in_container\<close>.  Every exception of the body is caught by its own
  \<^verbatim>\<open>except Exception\<close>; the entry of \<^verbatim>\<open>active_containers\<close> made on the way is removed
  by the \<^verbatim>\<open>finally\<close> clause before the method returns, so the dictionary is the same
  before and after and is not a field of the model.
\<close>

definition execute_in_container ::
  "SandboxedExecutor \<Rightarrow> string \<Rightarrow> path option \<Rightarrow> int \<Rightarrow> string \<Rightarrow> world \<Rightarrow> json \<times> world" where
  "execute_in_container ex command working_dir timeout execution_id w =
     (let (start_time, w1) = time_time w;
          wd = (case working_dir of None \<Rightarrow> ''/workspace'' | Some d \<Rightarrow> str_path d)
      in case container_of w1 (''bash -c '' @ [CHR 39] @ command @ [CHR 39]) wd of
           ContainerExit status logs \<Rightarrow>
             (let (t, w2) = time_time w1
              in (execution_result execution_id (status = 0) logs [] status
                    (JFloat (t - start_time)), w2))
         | ContainerError e \<Rightarrow>
             (let (t, w2) = time_time w1
              in (execution_result execution_id False [] (str_exc e) (- 1)
                    (JFloat (t - start_time)), w2)))"

text \<open>
  \<^verbatim>\<open>_execute_locally\<close>.  The inner \<^verbatim>\<open>try\<close> answers \<^verbatim>\<open>asyncio.TimeoutError\<close> by
  killing the process and reporting the configured \<^verbatim>\<open>timeout\<close> itself (an \<^verbatim>\<open>int\<close>) as
  the execution time; every other exception (a launch failure, output that is not
  UTF-8) reaches the outer \<^verbatim>\<open>except Exception\<close>, which reports the elapsed time.
\<close>

definition execute_locally ::
  "SandboxedExecutor \<Rightarrow> string \<Rightarrow> path option \<Rightarrow> int \<Rightarrow> string \<Rightarrow> world \<Rightarrow> json \<times> world" where
  "execute_locally ex command working_dir timeout execution_id w =
     (let (start_time, w1) = time_time w;
          work_dir = (case working_dir of None \<Rightarrow> ex_workspace_path ex | Some d \<Rightarrow> d)
      in case subprocess_of w1 command work_dir of
           SpawnError e \<Rightarrow>
             (let (t, w2) = time_time w1
              in (execution_result execution_id False [] (str_exc e) (- 1)
                    (JFloat (t - start_time)), w2))
         | Spawned p \<Rightarrow>
             (case wait_for p timeout of
                WaitTimeout \<Rightarrow>
                  (execution_result execution_id False [] ''Command timed out'' (- 1)
                     (JInt timeout), w1\<lparr>killed := killed w1 @ [pid p]\<rparr>)
              | Communicated \<Rightarrow>
                  (case (proc_stdout p, proc_stderr p) of
                     (Some out_text, Some err_text) \<Rightarrow>
                       (let (t, w2) = time_time w1
                        in (execution_result execution_id (returncode p = 0) out_text err_text
                              (returncode p) (JFloat (t - start_time)), w2))
                   | _ \<Rightarrow>
                       (let (t, w2) = time_time w1
                        in (execution_result execution_id False [] ''invalid utf-8'' (- 1)
                              (JFloat (t - start_time)), w2)))))"

text \<open>
  \<^verbatim>\<open>execute_command\<close>: the strategy is the one fixed by \<^verbatim>\<open>initialize\<close>
  (\<open>docker_client\<close>).  Both strategies catch every exception themselves, so the
  \<^verbatim>\<open>except Exception\<close> of this method has nothing left to catch.
\<close>

definition execute_command ::
  "SandboxedExecutor \<Rightarrow> string \<Rightarrow> path option \<Rightarrow> int \<Rightarrow> world \<Rightarrow> json \<times> world" where
  "execute_command ex command working_dir timeout w =
     (let (execution_id, w1) = uuid4 w;
          (start_time, w2) = time_time w1
      in if docker_client ex
         then execute_in_container ex command working_dir timeout execution_id w2
         else execute_locally ex command working_dir timeout execution_id w2)"

section \<open>TransparencyLogger\<close>

text \<open>
  A subscriber is a callable.  Calling it with an action either raises, or returns a
  coroutine object (an \<^verbatim>\<open>async def\<close> callback: nothing of its body has run yet), or
  returns something that is no coroutine.
\<close>

datatype callback_result = CallbackRaises py_exception | ReturnsCoroutine | ReturnsOther

type_synonym subscriber = "AgentAction \<Rightarrow> callback_result"

record TransparencyLogger =
  session_id :: string
  actions :: "AgentAction list"
  subscribers :: "subscriber list"

definition TransparencyLogger_init :: "string \<Rightarrow> TransparencyLogger" where
  "TransparencyLogger_init sid = \<lparr>session_id = sid, actions = [], subscribers = []\<rparr>"

text \<open>
  \<^verbatim>\<open>asyncio.create_task(subscriber(action))\<close> for the subscriber at position \<open>i\<close>: the
  call of the subscriber may raise; \<^verbatim>\<open>create_task\<close> raises \<^verbatim>\<open>TypeError\<close> for a value
  that is no coroutine, and otherwise hands a new task to the running event loop
  (every caller of \<^verbatim>\<open>log_action\<close> in the repository is itself a coroutine).
\<close>

definition create_task ::
  "string \<Rightarrow> nat \<Rightarrow> subscriber \<Rightarrow> AgentAction \<Rightarrow> world \<Rightarrow> (py_exception + unit) \<times> world" where
  "create_task sid i sub a w =
     (case sub a of
        CallbackRaises e \<Rightarrow> (Inl e, w)
      | ReturnsOther \<Rightarrow> (Inl (Raise TypeError ''a coroutine was expected''), w)
      | ReturnsCoroutine \<Rightarrow> (Inr (), w\<lparr>loop_tasks := loop_tasks w @ [(sid, i, a)]\<rparr>))"

text \<open>The \<^verbatim>\<open>for subscriber in self.subscribers\<close> loop of \<^verbatim>\<open>log_action\<close>, from
  position \<open>i\<close> on; the \<^verbatim>\<open>try\<close> is inside the loop.\<close>

fun notify ::
  "string \<Rightarrow> nat \<Rightarrow> subscriber list \<Rightarrow> AgentAction \<Rightarrow> world \<Rightarrow> (py_exception + unit) \<times> world" where
  "notify sid i [] a w = (Inr (), w)"
| "notify sid i (sub # subs) a w =
     (case create_task sid i sub a w of
        (Inl e, w1) \<Rightarrow>
          notify sid (Suc i) subs a
            (logger_error (''Error notifying transparency subscriber: '' @ str_exc e) w1)
      | (Inr u, w1) \<Rightarrow> notify sid (Suc i) subs a w1)"

definition log_action ::
  "AgentAction \<Rightarrow> TransparencyLogger \<times> world
   \<Rightarrow> (py_exception + unit) \<times> (TransparencyLogger \<times> world)" where
  "log_action a s =
     (let lg = (fst s)\<lparr>actions := actions (fst s) @ [a]\<rparr>;
          (r, w1) = notify (session_id lg) 0 (subscribers lg) a (snd s)
      in (r, (lg, w1)))"

definition subscribe :: "subscriber \<Rightarrow> TransparencyLogger \<Rightarrow> TransparencyLogger" where
  "subscribe callback lg = lg\<lparr>subscribers := subscribers lg @ [callback]\<rparr>"

text \<open>\<^verbatim>\<open>get_actions\<close>: \<^verbatim>\<open>if limit:\<close> skips \<^verbatim>\<open>None\<close> and \<open>0\<close>; \<^verbatim>\<open>actions[-limit:]\<close> is
  the last \<open>limit\<close> actions for a positive limit and drops the first \<open>-limit\<close> for a
  negative one.\<close>

definition get_actions ::
  "TransparencyLogger \<Rightarrow> AgentType option \<Rightarrow> int option \<Rightarrow> AgentAction list" where
  "get_actions lg agent_ty limit =
     (let acts = (case agent_ty of
                    None \<Rightarrow> actions lg
                  | Some ty \<Rightarrow> filter (\<lambda>a. agent_type a = ty) (actions lg))
      in case limit of
           None \<Rightarrow> acts
         | Some l \<Rightarrow>
             if l = 0 then acts
             else if 0 < l then drop (length acts - nat l) acts
             else drop (nat (- l)) acts)"

section \<open>SessionManager\<close>

record SessionManager =
  storage_path :: path
  active_sessions :: "(string \<times> SessionState) list"

definition session_file :: "SessionManager \<Rightarrow> string \<Rightarrow> path" where
  "session_file sm sid = storage_path sm @ [sid @ ''.json'']"

text \<open>
  \<^verbatim>\<open>_save_session\<close>.  The file is opened for writing (and so truncated) before
  \<^verbatim>\<open>json.dumps\<close> runs; \<^verbatim>\<open>json.dumps\<close> raises \<^verbatim>\<open>TypeError\<close> on the enum members and
  \<^verbatim>\<open>datetime\<close> values that \<^verbatim>\<open>asdict\<close> leaves in a task or an action, so only a state
  whose \<^verbatim>\<open>active_tasks\<close> and \<^verbatim>\<open>transparency_log\<close> are empty is written.
\<close>

definition save_session ::
  "SessionManager \<Rightarrow> SessionState \<Rightarrow> world \<Rightarrow> (py_exception + unit) \<times> world" where
  "save_session sm s w =
     (if active_tasks s = [] \<and> transparency_log s = []
      then (Inr (), w\<lparr>storage := (storage w)(session_file sm (s_session_id s) \<mapsto> Doc s)\<rparr>)
      else (Inl (Raise TypeError ''Object is not JSON serializable''),
            w\<lparr>storage := (storage w)(session_file sm (s_session_id s) \<mapsto> Corrupt)\<rparr>))"

text \<open>\<^verbatim>\<open>_load_session\<close>: \<^verbatim>\<open>None\<close> for a file that does not exist, and \<^verbatim>\<open>None\<close> with
  a logged error for one that cannot be parsed.\<close>

definition load_session ::
  "SessionManager \<Rightarrow> string \<Rightarrow> world \<Rightarrow> SessionState option \<times> world" where
  "load_session sm sid w =
     (case storage w (session_file sm sid) of
        None \<Rightarrow> (None, w)
      | Some Corrupt \<Rightarrow> (None, logger_error (''Error loading session '' @ sid) w)
      | Some (Doc s) \<Rightarrow> (Some s, w))"

definition SessionManager_create_session ::
  "SessionManager \<Rightarrow> string \<Rightarrow> path \<Rightarrow> world
   \<Rightarrow> (py_exception + string) \<times> SessionManager \<times> world" where
  "SessionManager_create_session sm uid workspace w =
     (let (sid, w1) = uuid4 w;
          (now, w2) = datetime_now w1;
          session_state =
            \<lparr>s_session_id = sid, s_user_id = uid, workspace_snapshot = None,
             agent_memory = [], conversation_history = [], active_tasks = [],
             transparency_log = [], s_created_at = now, checkpoint_name = None\<rparr>;
          sm1 = sm\<lparr>active_sessions := AList.update sid session_state (active_sessions sm)\<rparr>
      in case save_session sm1 session_state w2 of
           (Inl e, w3) \<Rightarrow> (Inl e, sm1, w3)
         | (Inr u, w3) \<Rightarrow> (Inr sid, sm1, w3))"

subsection \<open>Capturing a workspace\<close>

text \<open>
  \<^verbatim>\<open>aiofiles.open(file_path, 'r', encoding='utf-8')\<close> followed by \<^verbatim>\<open>f.read()\<close>: the
  file is opened in text mode with the default \<^verbatim>\<open>newline\<close>, so the value read is the
  decoded content with universal newlines applied.  \<open>OSError\<close> stands for every
  \<^verbatim>\<open>OSError\<close> that is not a \<^verbatim>\<open>PermissionError\<close>.
\<close>

definition read_text :: "entry \<Rightarrow> py_exception + ustr" where
  "read_text e =
     (case e_read e of
        ReadBytes bs \<Rightarrow>
          (case utf8_decode bs of
             None \<Rightarrow> Inl (Raise UnicodeDecodeError ''invalid utf-8'')
           | Some content \<Rightarrow> Inr (universal_newlines content))
      | ReadPermissionError \<Rightarrow> Inl (Raise PermissionError ''Permission denied'')
      | ReadOSError m \<Rightarrow> Inl (Raise OSError m))"

text \<open>
  The first loop of \<^verbatim>\<open>_capture_workspace\<close>, with the \<^verbatim>\<open>files\<close> dictionary built so
  far.  The inner handler is \<^verbatim>\<open>except (UnicodeDecodeError, PermissionError): pass\<close>;
  any other exception leaves the loop (first component of the result) with the
  dictionary as it is.
\<close>

fun capture_files ::
  "entry list \<Rightarrow> (path \<times> ustr) list \<Rightarrow> py_exception option \<times> (path \<times> ustr) list" where
  "capture_files [] files = (None, files)"
| "capture_files (e # es) files =
     (if e_is_file e \<and> e_size e < 1024 * 1024 then
        (case read_text e of
           Inr content \<Rightarrow> capture_files es (AList.update (e_path e) content files)
         | Inl (Raise c m) \<Rightarrow>
             if c = UnicodeDecodeError \<or> c = PermissionError then capture_files es files
             else (Some (Raise c m), files))
      else capture_files es files)"

text \<open>The second loop: one \<^verbatim>\<open>structure\<close> item per entry.\<close>

definition structure_of :: "entry \<Rightarrow> structure_item" where
  "structure_of e =
     \<lparr>item_path = e_path e, item_is_dir = e_is_dir e,
      item_size = (if e_is_file e then e_size e else 0)\<rparr>"

text \<open>
  \<^verbatim>\<open>_capture_workspace\<close>.  Both loops and the git status are inside one \<^verbatim>\<open>try\<close>:
  an exception that leaves the first loop skips the second loop and the git status,
  is logged, and the snapshot built so far is returned.  \<^verbatim>\<open>_get_git_status\<close> catches
  its own exceptions and always returns a dictionary.
\<close>

definition capture_workspace :: "path \<Rightarrow> world \<Rightarrow> WorkspaceSnapshot \<times> world" where
  "capture_workspace workspace w =
     (let (now, w1) = datetime_now w;
          snapshot = \<lparr>snap_files = [], snap_structure = [], snap_git_status = None,
                      snap_timestamp = now\<rparr>
      in case capture_files (rglob_of w1 workspace) [] of
           (Some e, files) \<Rightarrow>
             (snapshot\<lparr>snap_files := files\<rparr>,
              logger_error (''Error capturing workspace: '' @ str_exc e) w1)
         | (None, files) \<Rightarrow>
             (snapshot\<lparr>snap_files := files,
                       snap_structure := map structure_of (rglob_of w1 workspace),
                       snap_git_status := Some (git_status_of w1 workspace)\<rparr>, w1))"

subsection \<open>Restoring a workspace\<close>

text \<open>Every prefix of a path, from the root to the path itself.\<close>

fun ancestors :: "path \<Rightarrow> path list" where
  "ancestors [] = [[]]"
| "ancestors (c # cs) = [] # map ((#) c) (ancestors cs)"

text \<open>\<^verbatim>\<open>p.mkdir(parents=True, exist_ok=True)\<close>: fails when the path or one of its
  parents is a regular file, and otherwise makes every missing directory.\<close>

definition mkdir_parents :: "path \<Rightarrow> world \<Rightarrow> (py_exception + unit) \<times> world" where
  "mkdir_parents p w =
     (if list_ex (\<lambda>q. fs_files w q \<noteq> None) (ancestors p)
      then (Inl (Raise OSError ''File exists''), w)
      else (Inr (), w\<lparr>fs_dirs := fs_dirs w \<union> set (ancestors p)\<rparr>))"

text \<open>
  \<^verbatim>\<open>open(file_path, 'w', encoding='utf-8')\<close> followed by \<^verbatim>\<open>f.write(content)\<close>: the
  open fails on a directory and otherwise leaves an empty file; the write replaces
  every \<^verbatim>\<open>'\n'\<close> by \<^verbatim>\<open>os.linesep\<close> and encodes.
\<close>

definition write_text :: "path \<Rightarrow> ustr \<Rightarrow> world \<Rightarrow> (py_exception + unit) \<times> world" where
  "write_text p content w =
     (if p \<in> fs_dirs w then (Inl (Raise OSError ''Is a directory''), w)
      else case utf8_encode (write_newlines (linesep w) content) of
             None \<Rightarrow>
               (Inl (Raise UnicodeEncodeError ''surrogates not allowed''),
                w\<lparr>fs_files := (fs_files w)(p \<mapsto> [])\<rparr>)
           | Some bs \<Rightarrow> (Inr (), w\<lparr>fs_files := (fs_files w)(p \<mapsto> bs)\<rparr>))"

text \<open>The loop of \<^verbatim>\<open>_restore_workspace\<close> over \<^verbatim>\<open>snapshot.get("files", {}).items()\<close>.\<close>

fun restore_files ::
  "path \<Rightarrow> (path \<times> ustr) list \<Rightarrow> world \<Rightarrow> (py_exception + unit) \<times> world" where
  "restore_files target [] w = (Inr (), w)"
| "restore_files target ((relative_path, content) # rest) w =
     (let file_path = target @ relative_path
      in case mkdir_parents (butlast file_path) w of
           (Inl e, w1) \<Rightarrow> (Inl e, w1)
         | (Inr u, w1) \<Rightarrow>
             (case write_text file_path content w1 of
                (Inl e, w2) \<Rightarrow> (Inl e, w2)
              | (Inr u, w2) \<Rightarrow> restore_files target rest w2))"

text \<open>\<^verbatim>\<open>_restore_workspace\<close>: the first \<^verbatim>\<open>mkdir\<close> is outside the \<^verbatim>\<open>try\<close>; an
  exception of the loop is logged and ends the restore.\<close>

definition restore_workspace ::
  "WorkspaceSnapshot option \<Rightarrow> path \<Rightarrow> world \<Rightarrow> (py_exception + unit) \<times> world" where
  "restore_workspace snapshot target w =
     (case mkdir_parents target w of
        (Inl e, w1) \<Rightarrow> (Inl e, w1)
      | (Inr u, w1) \<Rightarrow>
          (case restore_files target
                  (case snapshot of None \<Rightarrow> [] | Some snap \<Rightarrow> snap_files snap) w1 of
             (Inl e, w2) \<Rightarrow> (Inr (), logger_error (''Error restoring workspace: '' @ str_exc e) w2)
           | (Inr u, w2) \<Rightarrow> (Inr (), w2)))"

text \<open>\<^verbatim>\<open>restore_from_checkpoint\<close>: \<^verbatim>\<open>ValueError\<close> when the load finds nothing.\<close>

definition restore_from_checkpoint ::
  "SessionManager \<Rightarrow> string \<Rightarrow> path \<Rightarrow> world \<Rightarrow> (py_exception + SessionState) \<times> world" where
  "restore_from_checkpoint sm restore_point_id target_workspace w =
     (case load_session sm restore_point_id w of
        (None, w1) \<Rightarrow>
          (Inl (Raise ValueError (''Restore point '' @ restore_point_id @ '' not found'')), w1)
      | (Some restore_point, w1) \<Rightarrow>
          (case restore_workspace (workspace_snapshot restore_point) target_workspace w1 of
             (Inl e, w2) \<Rightarrow> (Inl e, w2)
           | (Inr u, w2) \<Rightarrow> (Inr restore_point, w2)))"

section \<open>UnifiedAgentOrchestrator\<close>

subsection \<open>Sequencing statements that may raise\<close>

definition py_bind ::
  "('s \<Rightarrow> (py_exception + 'a) \<times> 's) \<Rightarrow> ('a \<Rightarrow> 's \<Rightarrow> (py_exception + 'b) \<times> 's)
   \<Rightarrow> 's \<Rightarrow> (py_exception + 'b) \<times> 's" where
  "py_bind m f s = (case m s of (Inl e, s1) \<Rightarrow> (Inl e, s1) | (Inr x, s1) \<Rightarrow> f x s1)"

definition py_return :: "'a \<Rightarrow> 's \<Rightarrow> (py_exception + 'a) \<times> 's" where
  "py_return x s = (Inr x, s)"

text \<open>A statement that touches only the world, run next to a logger.\<close>

definition on_world ::
  "(world \<Rightarrow> (py_exception + 'a) \<times> world) \<Rightarrow> TransparencyLogger \<times> world
   \<Rightarrow> (py_exception + 'a) \<times> (TransparencyLogger \<times> world)" where
  "on_world m s = (case m (snd s) of (r, w1) \<Rightarrow> (r, (fst s, w1)))"

subsection \<open>State\<close>

record metrics =
  total_tasks :: int
  successful_tasks :: int
  failed_tasks :: int
  avg_execution_time :: real
  swe_bench_score :: real

record Orchestrator =
  workspace_root :: path
  session_manager :: SessionManager
  executor :: SandboxedExecutor
  transparency_loggers :: "(string \<times> TransparencyLogger) list"
  metrics :: metrics

text \<open>The object \<^verbatim>\<open>__init__\<close> builds (the container runtime is probed later, by
  \<^verbatim>\<open>initialize\<close>, which sets \<open>docker_client\<close>).\<close>

definition Orchestrator_init :: "path \<Rightarrow> path \<Rightarrow> Orchestrator" where
  "Orchestrator_init ws_root store =
     \<lparr>workspace_root = ws_root,
      session_manager = \<lparr>storage_path = store, active_sessions = []\<rparr>,
      executor = \<lparr>ex_workspace_path = ws_root, docker_client = False\<rparr>,
      transparency_loggers = [],
      metrics = \<lparr>total_tasks = 0, successful_tasks = 0, failed_tasks = 0,
                 avg_execution_time = 0, swe_bench_score = 0\<rparr>\<rparr>"

subsection \<open>create_session\<close>

text \<open>Reading a local variable of a function: \<^verbatim>\<open>UnboundLocalError\<close> while no
  assignment to it has run.\<close>

definition read_local :: "string \<Rightarrow> 'a option \<Rightarrow> py_exception + 'a" where
  "read_local name v =
     (case v of
        None \<Rightarrow>
          Inl (Raise UnboundLocalError
                 (''cannot access local variable '' @ [CHR 39] @ name @ [CHR 39]
                  @ '' where it is not associated with a value''))
      | Some x \<Rightarrow> Inr x)"

text \<open>
  \<^verbatim>\<open>create_session\<close>.  The name \<^verbatim>\<open>session_id\<close> is assigned in the body, so it is a
  local variable of the method; the only assignment is the one whose right-hand side
  is the call of \<^verbatim>\<open>self.session_manager.create_session\<close>, and the second argument of
  that call, \<^verbatim>\<open>str(self.workspace_root / session_id)\<close>, is evaluated before the call
  and reads the variable.
\<close>

definition create_session ::
  "Orchestrator \<Rightarrow> string \<Rightarrow> world \<Rightarrow> (py_exception + string) \<times> Orchestrator \<times> world" where
  "create_session orch uid w =
     (let session_id_local = (None :: string option)
      in case read_local ''session_id'' session_id_local of
           Inl e \<Rightarrow> (Inl e, orch, w)
         | Inr sid0 \<Rightarrow>
             (case SessionManager_create_session (session_manager orch) uid
                     (workspace_root orch @ [sid0]) w of
                (Inl e, sm1, w1) \<Rightarrow> (Inl e, orch\<lparr>session_manager := sm1\<rparr>, w1)
              | (Inr sid, sm1, w1) \<Rightarrow>
                  (Inr sid,
                   orch\<lparr>session_manager := sm1,
                        transparency_loggers :=
                          AList.update sid (TransparencyLogger_init sid)
                            (transparency_loggers orch)\<rparr>,
                   w1)))"

subsection \<open>The execution strategies\<close>

text \<open>\<^verbatim>\<open>AgentAction(id=str(uuid.uuid4()), ..., timestamp=datetime.now())\<close> with the
  other fields at their defaults.\<close>

definition new_action :: "AgentType \<Rightarrow> string \<Rightarrow> string \<Rightarrow> world \<Rightarrow> AgentAction \<times> world" where
  "new_action ty act descr w =
     (let (i, w1) = uuid4 w;
          (now, w2) = datetime_now w1
      in (AgentAction_init i ty act descr now, w2))"

text \<open>Building an action, setting further fields with \<open>extra\<close>, and logging it.\<close>

definition emit ::
  "AgentType \<Rightarrow> string \<Rightarrow> string \<Rightarrow> (AgentAction \<Rightarrow> AgentAction) \<Rightarrow> TransparencyLogger \<times> world
   \<Rightarrow> (py_exception + unit) \<times> (TransparencyLogger \<times> world)" where
  "emit ty act descr extra s =
     (let (a, w1) = new_action ty act descr (snd s)
      in log_action (extra a) (fst s, w1))"

definition execute_openhands_task ::
  "Orchestrator \<Rightarrow> TaskContext \<Rightarrow> TransparencyLogger \<times> world
   \<Rightarrow> (py_exception + json) \<times> (TransparencyLogger \<times> world)" where
  "execute_openhands_task orch task_context =
     py_bind (emit PLANNING ''perceive'' ''Analyzing task context and requirements'' (\<lambda>a. a))
     (\<lambda>u1. py_bind (emit PLANNING ''plan'' ''Creating execution plan'' (\<lambda>a. a))
     (\<lambda>u2. py_bind (on_world (mkdir_parents (workspace_root orch @ [task_id task_context])))
     (\<lambda>u3. py_bind
        (on_world (\<lambda>w. case execute_command (executor orch)
                            (''echo '' @ [CHR 39] @ ''OpenHands-style execution for: ''
                             @ task_description task_context @ [CHR 39])
                            (Some (workspace_root orch @ [task_id task_context])) 30 w of
                          (r, w1) \<Rightarrow> (Inr r, w1)))
     (\<lambda>execution_res. py_bind
        (emit CODING ''execute'' ''Executing planned solution''
           (\<lambda>a. a\<lparr>output_data := Some execution_res\<rparr>))
     (\<lambda>u4. py_bind (emit TESTING ''reflect'' ''Validating execution results'' (\<lambda>a. a))
     (\<lambda>u5. py_return (JDict
        [(''approach'', JStr ''openhands''),
         (''execution_result'', execution_res),
         (''workspace_path'', JStr (str_path (workspace_root orch @ [task_id task_context]))),
         (''swe_bench_compatible'', JBool True)])))))))"

text \<open>The \<^verbatim>\<open>for agent_type in task_context.assigned_agents\<close> loop, with the list
  \<^verbatim>\<open>agents_spawned\<close> built so far.\<close>

fun spawn_agents ::
  "AgentType list \<Rightarrow> AgentType list \<Rightarrow> TransparencyLogger \<times> world
   \<Rightarrow> (py_exception + AgentType list) \<times> (TransparencyLogger \<times> world)" where
  "spawn_agents [] spawned s = py_return spawned s"
| "spawn_agents (ty # rest) spawned s =
     py_bind
       (emit ty ''spawn'' (''Spawning '' @ AgentType_value ty @ '' for autonomous execution'')
          (\<lambda>a. a))
       (\<lambda>u. spawn_agents rest (spawned @ [ty])) s"

definition execute_manus_task ::
  "Orchestrator \<Rightarrow> TaskContext \<Rightarrow> TransparencyLogger \<times> world
   \<Rightarrow> (py_exception + json) \<times> (TransparencyLogger \<times> world)" where
  "execute_manus_task orch task_context =
     py_bind (spawn_agents (assigned_agents task_context) [])
     (\<lambda>agents_spawned. py_bind
        (emit RESEARCH ''research'' ''Conducting autonomous research for task requirements''
           (\<lambda>a. a))
     (\<lambda>u. py_return (JDict
        [(''approach'', JStr ''manus''),
         (''autonomous_execution'', JBool True),
         (''agents_spawned'', JList (map (\<lambda>a. JStr (AgentType_value a)) agents_spawned)),
         (''transparency_enabled'', JBool True),
         (''background_capable'', JBool True)])))"

text \<open>The \<^verbatim>\<open>for component in components\<close> loop, with the dictionary
  \<^verbatim>\<open>generated_components\<close> built so far.\<close>

fun generate_components ::
  "string list \<Rightarrow> TaskContext \<Rightarrow> (string \<times> json) list \<Rightarrow> TransparencyLogger \<times> world
   \<Rightarrow> (py_exception + (string \<times> json) list) \<times> (TransparencyLogger \<times> world)" where
  "generate_components [] task_context generated s = py_return generated s"
| "generate_components (component # rest) task_context generated s =
     py_bind
       (emit (if component = ''frontend'' then UI_GENERATION else BACKEND)
          ''generate_component'' (''Generating '' @ component @ '' component'') (\<lambda>a. a))
       (\<lambda>u. generate_components rest task_context
          (AList.update component
             (JStr (''Generated '' @ component @ '' for: '' @ task_description task_context))
             generated)) s"

definition execute_emergent_task ::
  "Orchestrator \<Rightarrow> TaskContext \<Rightarrow> TransparencyLogger \<times> world
   \<Rightarrow> (py_exception + json) \<times> (TransparencyLogger \<times> world)" where
  "execute_emergent_task orch task_context =
     py_bind
       (emit PLANNING ''architecture_design''
          ''Designing full-stack architecture from natural language'' (\<lambda>a. a))
     (\<lambda>u1. py_bind
        (generate_components
           [''frontend'', ''backend'', ''database'', ''authentication'', ''deployment'']
           task_context [])
     (\<lambda>generated_components. py_bind
        (emit DEPLOYMENT ''prepare_deployment'' ''Preparing deployment configuration'' (\<lambda>a. a))
     (\<lambda>u2. py_return (JDict
        [(''approach'', JStr ''emergent''),
         (''vibe_coding'', JBool True),
         (''generated_components'', JDict generated_components),
         (''deployment_ready'', JBool True),
         (''full_stack'', JBool True)]))))"

definition execute_hybrid_task ::
  "Orchestrator \<Rightarrow> TaskContext \<Rightarrow> TransparencyLogger \<times> world
   \<Rightarrow> (py_exception + json) \<times> (TransparencyLogger \<times> world)" where
  "execute_hybrid_task orch task_context =
     py_bind (execute_openhands_task orch task_context)
     (\<lambda>openhands_result. py_bind (execute_manus_task orch task_context)
     (\<lambda>manus_result. py_bind (execute_emergent_task orch task_context)
     (\<lambda>emergent_result. py_bind
        (emit ORCHESTRATOR ''hybrid_synthesis''
           ''Synthesizing results from all three approaches'' (\<lambda>a. a))
     (\<lambda>u. py_return (JDict
        [(''approach'', JStr ''hybrid''),
         (''openhands_result'', openhands_result),
         (''manus_result'', manus_result),
         (''emergent_result'', emergent_result),
         (''synthesis'', JStr ''Combined the best of all three approaches'')])))))"

text \<open>The \<^verbatim>\<open>if\<close>/\<^verbatim>\<open>elif\<close> chain of \<^verbatim>\<open>execute_task\<close> on the execution mode.\<close>

definition route ::
  "Orchestrator \<Rightarrow> TaskContext \<Rightarrow> TransparencyLogger \<times> world
   \<Rightarrow> (py_exception + json) \<times> (TransparencyLogger \<times> world)" where
  "route orch task_context =
     (if execution_mode task_context = OPENHANDS then execute_openhands_task orch task_context
      else if execution_mode task_context = MANUS then execute_manus_task orch task_context
      else if execution_mode task_context = EMERGENT then execute_emergent_task orch task_context
      else execute_hybrid_task orch task_context)"

subsection \<open>execute_task\<close>

text \<open>\<^verbatim>\<open>_update_avg_execution_time\<close>; dividing by a zero \<^verbatim>\<open>total_tasks\<close> raises.\<close>

definition update_avg_execution_time :: "real \<Rightarrow> metrics \<Rightarrow> py_exception + metrics" where
  "update_avg_execution_time exec_time m =
     (if total_tasks m = 0 then Inl (Raise ZeroDivisionError ''float division by zero'')
      else Inr (m\<lparr>avg_execution_time :=
                    (avg_execution_time m * real_of_int (total_tasks m - 1) + exec_time)
                    / real_of_int (total_tasks m)\<rparr>))"

text \<open>
  The rest of the \<^verbatim>\<open>try\<close> block of \<^verbatim>\<open>execute_task\<close> once the strategy has returned
  \<open>result\<close>: the \<^verbatim>\<open>task_complete\<close> action, the counters, the running average, the
  returned dictionary.
\<close>

definition task_completed ::
  "TaskContext \<Rightarrow> real \<Rightarrow> json \<Rightarrow> metrics \<Rightarrow> TransparencyLogger \<times> world
   \<Rightarrow> (py_exception + json) \<times> metrics \<times> (TransparencyLogger \<times> world)" where
  "task_completed task_context start_time result m s =
     (let (now, w1) = time_time (snd s);
          exec_time = now - start_time;
          (a, w2) = new_action ORCHESTRATOR ''task_complete'' ''Task completed successfully'' w1;
          completion_action =
            a\<lparr>output_data := Some result, execution_time := exec_time, success := True\<rparr>
      in case log_action completion_action (fst s, w2) of
           (Inl e, s1) \<Rightarrow> (Inl e, m, s1)
         | (Inr u, s1) \<Rightarrow>
             (let m1 = m\<lparr>total_tasks := total_tasks m + 1\<rparr>;
                  m2 = m1\<lparr>successful_tasks := successful_tasks m1 + 1\<rparr>
              in case update_avg_execution_time exec_time m2 of
                   Inl e \<Rightarrow> (Inl e, m2, s1)
                 | Inr m3 \<Rightarrow>
                     (Inr (JDict [(''success'', JBool True),
                                  (''result'', result),
                                  (''execution_time'', JFloat exec_time),
                                  (''task_id'', JStr (task_id task_context))]),
                      m3, s1)))"

text \<open>The \<^verbatim>\<open>except Exception as e\<close> block of \<^verbatim>\<open>execute_task\<close>.\<close>

definition task_failed ::
  "TaskContext \<Rightarrow> real \<Rightarrow> py_exception \<Rightarrow> metrics \<Rightarrow> TransparencyLogger \<times> world
   \<Rightarrow> (py_exception + json) \<times> metrics \<times> (TransparencyLogger \<times> world)" where
  "task_failed task_context start_time e m s =
     (let (now, w1) = time_time (snd s);
          exec_time = now - start_time;
          (a, w2) = new_action ORCHESTRATOR ''task_failed'' (''Task failed: '' @ str_exc e) w1;
          failure_action =
            a\<lparr>execution_time := exec_time, success := False,
              error_message := Some (str_exc e)\<rparr>
      in case log_action failure_action (fst s, w2) of
           (Inl e1, s1) \<Rightarrow> (Inl e1, m, s1)
         | (Inr u, s1) \<Rightarrow>
             (let m1 = m\<lparr>total_tasks := total_tasks m + 1\<rparr>;
                  m2 = m1\<lparr>failed_tasks := failed_tasks m1 + 1\<rparr>
              in (Inr (JDict [(''success'', JBool False),
                              (''error'', JStr (str_exc e)),
                              (''execution_time'', JFloat exec_time),
                              (''task_id'', JStr (task_id task_context))]),
                  m2, s1)))"

text \<open>
  The first statements of \<^verbatim>\<open>execute_task\<close> for a registered session: the start
  time is read and the \<^verbatim>\<open>task_start\<close> action is logged (outside the \<^verbatim>\<open>try\<close>).
\<close>

definition task_start ::
  "TaskContext \<Rightarrow> TransparencyLogger \<times> world
   \<Rightarrow> real \<times> (py_exception + unit) \<times> (TransparencyLogger \<times> world)" where
  "task_start task_context s =
     (let (start_time, w1) = time_time (snd s);
          (a, w2) = new_action ORCHESTRATOR ''task_start''
                      (''Starting task: '' @ task_description task_context) w1;
          start_action = a\<lparr>input_data := Some (asdict_TaskContext task_context)\<rparr>
      in (start_time, log_action start_action (fst s, w2)))"

text \<open>
  \<^verbatim>\<open>execute_task\<close>.  The logger found under \<^verbatim>\<open>session_id\<close> is mutated in place by
  every \<^verbatim>\<open>log_action\<close>, so the dictionary entry holds its final state whichever way
  the method is left.  An exception of the strategy, or of the statements after it
  inside the \<^verbatim>\<open>try\<close>, is handled by \<open>task_failed\<close>.
\<close>

definition execute_task ::
  "Orchestrator \<Rightarrow> string \<Rightarrow> TaskContext \<Rightarrow> world
   \<Rightarrow> (py_exception + json) \<times> Orchestrator \<times> world" where
  "execute_task orch sid task_context w =
     (case map_of (transparency_loggers orch) sid of
        None \<Rightarrow> (Inl (Raise ValueError (''Session '' @ sid @ '' not found'')), orch, w)
      | Some transparency_logger \<Rightarrow>
          (case task_start task_context (transparency_logger, w) of
             (start_time, Inl e, (lg1, w3)) \<Rightarrow>
               (Inl e,
                orch\<lparr>transparency_loggers := AList.update sid lg1 (transparency_loggers orch)\<rparr>,
                w3)
           | (start_time, Inr u, s1) \<Rightarrow>
               (case (case route orch task_context s1 of
                        (Inr result, s2) \<Rightarrow>
                          (case task_completed task_context start_time result (metrics orch) s2 of
                             (Inl e, m2, s3) \<Rightarrow> task_failed task_context start_time e m2 s3
                           | (Inr r, m2, s3) \<Rightarrow> (Inr r, m2, s3))
                      | (Inl e, s2) \<Rightarrow>
                          task_failed task_context start_time e (metrics orch) s2) of
                  (r, m3, (lg3, w4)) \<Rightarrow>
                    (r,
                     orch\<lparr>metrics := m3,
                          transparency_loggers :=
                            AList.update sid lg3 (transparency_loggers orch)\<rparr>,
                     w4))))"

subsection \<open>Queries, restore, metrics\<close>

definition get_transparency_log ::
  "Orchestrator \<Rightarrow> string \<Rightarrow> AgentType option \<Rightarrow> json list" where
  "get_transparency_log orch sid agent_ty =
     (case map_of (transparency_loggers orch) sid of
        None \<Rightarrow> []
      | Some lg \<Rightarrow> map asdict_AgentAction (get_actions lg agent_ty None))"

text \<open>The \<^verbatim>\<open>for action in restored_state.transparency_log\<close> loop of
  \<^verbatim>\<open>restore_session\<close>.\<close>

fun replay ::
  "AgentAction list \<Rightarrow> TransparencyLogger \<times> world
   \<Rightarrow> (py_exception + unit) \<times> (TransparencyLogger \<times> world)" where
  "replay [] s = (Inr (), s)"
| "replay (a # as) s =
     (case log_action a s of
        (Inl e, s1) \<Rightarrow> (Inl e, s1)
      | (Inr u, s1) \<Rightarrow> replay as s1)"

text \<open>
  \<^verbatim>\<open>restore_session\<close>.  The whole body is one \<^verbatim>\<open>try\<close>; its \<^verbatim>\<open>except Exception\<close>
  logs the error and returns \<^verbatim>\<open>False\<close>.
\<close>

definition restore_session ::
  "Orchestrator \<Rightarrow> string \<Rightarrow> string \<Rightarrow> world \<Rightarrow> (py_exception + bool) \<times> Orchestrator \<times> world" where
  "restore_session orch restore_point_id target_session_id w =
     (case restore_from_checkpoint (session_manager orch) restore_point_id
             (workspace_root orch @ [target_session_id]) w of
        (Inl e, w1) \<Rightarrow>
          (Inr False, orch, logger_error (''Error restoring session: '' @ str_exc e) w1)
      | (Inr restored_state, w1) \<Rightarrow>
          (case replay (transparency_log restored_state)
                  (TransparencyLogger_init target_session_id, w1) of
             (Inl e, (lg, w2)) \<Rightarrow>
               (Inr False,
                orch\<lparr>transparency_loggers :=
                       AList.update target_session_id lg (transparency_loggers orch)\<rparr>,
                logger_error (''Error restoring session: '' @ str_exc e) w2)
           | (Inr u, (lg, w2)) \<Rightarrow>
               (Inr True,
                orch\<lparr>transparency_loggers :=
                       AList.update target_session_id lg (transparency_loggers orch)\<rparr>,
                w2)))"




section \<open>Example inputs\<close>

text \<open>A quiet machine: the clock reads \<open>0, 1, 2, \<dots>\<close>, every command fails to
  launch, every directory is empty, nothing is stored.\<close>

definition example_world :: world where
  "example_world =
     \<lparr>ticks = 0,
      uuid_of = (\<lambda>n. ''uuid''),
      time_of = (\<lambda>n. real n),
      subprocess_of = (\<lambda>c d. SpawnError (Raise OSError ''no shell'')),
      container_of = (\<lambda>c d. ContainerError (Raise OSError ''no runtime'')),
      rglob_of = (\<lambda>p. []),
      git_status_of = (\<lambda>p. JDict [(''is_git_repo'', JBool False)]),
      linesep = posix_linesep,
      fs_files = Map.empty,
      fs_dirs = {[]},
      storage = Map.empty,
      killed = [],
      loop_tasks = [],
      error_log = []\<rparr>"

definition example_task :: "ExecutionMode \<Rightarrow> TaskContext" where
  "example_task mode =
     \<lparr>task_id = ''t1'', user_id = ''alice'', task_description = ''list files'',
      execution_mode = mode, priority = 1, assigned_agents = [RESEARCH], dependencies = [],
      workspace_path = None, git_repo = None, environment_config = None, created_at = 0\<rparr>"

text \<open>An orchestrator with one registered session \<open>s1\<close> that has no subscriber.\<close>

definition example_orch :: Orchestrator where
  "example_orch =
     (Orchestrator_init [''ws''] [''store''])
       \<lparr>transparency_loggers := [(''s1'', TransparencyLogger_init ''s1'')]\<rparr>"


text \<open>A logger with two subscribers: the first raises when called, the second is an
  \<^verbatim>\<open>async def\<close> callback.\<close>

definition example_logger :: TransparencyLogger where
  "example_logger =
     \<lparr>session_id = ''s1'', actions = [],
      subscribers = [\<lambda>a. CallbackRaises (Raise ValueError ''boom''), \<lambda>a. ReturnsCoroutine]\<rparr>"

definition example_action :: AgentAction where
  "example_action = AgentAction_init ''a1'' PLANNING ''plan'' ''Creating execution plan'' 0"





text \<open>
  A workspace \<^verbatim>\<open>ws\<close> with one text file \<^verbatim>\<open>a.txt\<close> of four bytes, \<^verbatim>\<open>hi\<close> followed
  by a carriage return and a line feed; the target directory does not exist yet.
\<close>

definition crlf_world :: world where
  "crlf_world =
     example_world
       \<lparr>rglob_of :=
          (\<lambda>p. if p = [''ws'']
                then [\<lparr>e_path = [''a.txt''], e_is_file = True, e_is_dir = False, e_size = 4,
                       e_read = ReadBytes [104, 105, 13, 10]\<rparr>]
                else [])\<rparr>"



section \<open>Properties\<close>

subsection \<open>Logging never raises\<close>

lemma notify_returns: "fst (notify sid i subs a w) = Inr ()"
  by (induction subs arbitrary: i w) (auto simp: create_task_def split: callback_result.splits)

lemma log_action_returns: "fst (log_action a s) = Inr ()"
  using notify_returns [of "session_id (fst s)" 0 "subscribers (fst s)" a "snd s"]
  by (auto simp: log_action_def split: prod.splits)

lemma log_action_actions: "actions (fst (snd (log_action a s))) = actions (fst s) @ [a]"
  by (simp add: log_action_def split: prod.splits)

lemma log_action_subscribers: "subscribers (fst (snd (log_action a s))) = subscribers (fst s)"
  by (simp add: log_action_def split: prod.splits)

lemma log_action_session_id: "session_id (fst (snd (log_action a s))) = session_id (fst s)"
  by (simp add: log_action_def split: prod.splits)

subsection \<open>Sessions without a logger\<close>

text \<open>
  C10.  For a session id under which no logger is registered,
  \<^verbatim>\<open>get_transparency_log\<close> returns the empty list, whatever the role filter; it has no
  way to raise.
\<close>

theorem get_transparency_log_unregistered:
  "map_of (transparency_loggers orch) sid = None \<Longrightarrow> get_transparency_log orch sid agent_ty = []"
  by (simp add: get_transparency_log_def)

theorem get_transparency_log_unregistered_witness:
  "map_of (transparency_loggers (Orchestrator_init [''ws''] [''store''])) ''never-created'' = None
   \<and> get_transparency_log (Orchestrator_init [''ws''] [''store'']) ''never-created'' None = []"
  using get_transparency_log_unregistered
    [of "Orchestrator_init [''ws''] [''store'']" "''never-created''" None]
  by (simp add: Orchestrator_init_def)

text \<open>
  C8.  For a session id under which no logger is registered, \<^verbatim>\<open>execute_task\<close> raises
  \<^verbatim>\<open>ValueError\<close> (``Session ... not found''), and the orchestrator (its loggers with
  their actions, its metrics) and the world are exactly as before the call.
\<close>

theorem execute_task_session_not_found:
  "map_of (transparency_loggers orch) sid = None \<Longrightarrow>
   execute_task orch sid task_context w =
     (Inl (Raise ValueError (''Session '' @ sid @ '' not found'')), orch, w)"
  by (simp add: execute_task_def)

theorem execute_task_session_not_found_witness:
  "map_of (transparency_loggers example_orch) ''s2'' = None
   \<and> execute_task example_orch ''s2'' (example_task EMERGENT) example_world =
       (Inl (Raise ValueError ''Session s2 not found''), example_orch, example_world)"
  using execute_task_session_not_found
    [of example_orch "''s2''" "example_task EMERGENT" example_world]
  by (simp add: example_orch_def Orchestrator_init_def)

subsection \<open>Subscriber isolation\<close>

lemma notify_loop_tasks:
  "loop_tasks (snd (notify sid i subs a w)) =
     loop_tasks w @ map (\<lambda>(j, sub). (sid, j, a))
                      (filter (\<lambda>(j, sub). sub a = ReturnsCoroutine) (enumerate i subs))"
  by (induction subs arbitrary: i w)
     (auto simp: create_task_def logger_error_def split: callback_result.splits)

lemma notify_error_log:
  "error_log (snd (notify sid i subs a w)) =
     error_log w @ concat (map (\<lambda>sub. case sub a of
         CallbackRaises e \<Rightarrow> [''Error notifying transparency subscriber: '' @ str_exc e]
       | ReturnsOther \<Rightarrow> [''Error notifying transparency subscriber: a coroutine was expected'']
       | ReturnsCoroutine \<Rightarrow> []) subs)"
  by (induction subs arbitrary: i w)
     (auto simp: create_task_def logger_error_def split: callback_result.splits)

lemma log_action_loop_tasks:
  "loop_tasks (snd (snd (log_action a (lg, w)))) =
     loop_tasks w @ map (\<lambda>(j, sub). (session_id lg, j, a))
                      (filter (\<lambda>(j, sub). sub a = ReturnsCoroutine)
                         (enumerate 0 (subscribers lg)))"
  using notify_loop_tasks [of "session_id lg" 0 "subscribers lg" a w]
  by (auto simp: log_action_def split: prod.splits)

text \<open>
  C5.  \<^verbatim>\<open>log_action\<close> returns without raising, whatever its subscribers do; the
  action is appended and the subscriber list is unchanged; every subscriber that
  returns a coroutine has its task for this action handed to the event loop, at
  whatever position it stands and whatever the other subscribers did (raised, or
  returned something that is no coroutine); and the next \<^verbatim>\<open>log_action\<close> on the
  resulting logger returns without raising as well.
\<close>

theorem log_action_subscriber_isolation:
  "fst (log_action a (lg, w)) = Inr ()
   \<and> actions (fst (snd (log_action a (lg, w)))) = actions lg @ [a]
   \<and> subscribers (fst (snd (log_action a (lg, w)))) = subscribers lg
   \<and> (\<forall>i < length (subscribers lg).
         (subscribers lg ! i) a = ReturnsCoroutine \<longrightarrow>
         (session_id lg, i, a) \<in> set (loop_tasks (snd (snd (log_action a (lg, w))))))
   \<and> fst (log_action b (snd (log_action a (lg, w)))) = Inr ()"
proof -
  have deliver: "(session_id lg, i, a) \<in> set (loop_tasks (snd (snd (log_action a (lg, w)))))"
    if "i < length (subscribers lg)" and "(subscribers lg ! i) a = ReturnsCoroutine" for i
  proof -
    from that have "(i, subscribers lg ! i) \<in> set (enumerate 0 (subscribers lg))"
      by (simp add: in_set_enumerate_eq)
    with that show ?thesis
      by (force simp: log_action_loop_tasks)
  qed
  show ?thesis
    using log_action_returns [of a "(lg, w)"] log_action_returns [of b "snd (log_action a (lg, w))"]
      log_action_actions [of a "(lg, w)"] log_action_subscribers [of a "(lg, w)"] deliver
    by simp
qed

theorem log_action_subscriber_isolation_witness:
  "1 < length (subscribers example_logger)
   \<and> (subscribers example_logger ! 0) example_action = CallbackRaises (Raise ValueError ''boom'')
   \<and> (subscribers example_logger ! 1) example_action = ReturnsCoroutine
   \<and> (''s1'', 1, example_action)
       \<in> set (loop_tasks (snd (snd (log_action example_action (example_logger, example_world)))))
   \<and> fst (log_action example_action (example_logger, example_world)) = Inr ()"
  using log_action_subscriber_isolation
    [of example_action example_logger example_world example_action]
  by (auto simp: example_logger_def)

subsection \<open>Creating a session\<close>

lemma create_session_always_raises:
  "create_session orch uid w =
     (Inl (Raise UnboundLocalError
             (''cannot access local variable '' @ [CHR 39] @ ''session_id'' @ [CHR 39]
              @ '' where it is not associated with a value'')),
      orch, w)"
  by (simp add: create_session_def read_local_def)

text \<open>
  C1.  The claim is that \<^verbatim>\<open>create_session\<close> returns a fresh session id, persists a
  \<^verbatim>\<open>SessionState\<close> and registers a logger, without raising.  The code reads the local
  variable \<^verbatim>\<open>session_id\<close> in the argument of the very call whose result is to be
  assigned to it.  For the user \<open>alice\<close> on a new orchestrator the call raises
  \<^verbatim>\<open>UnboundLocalError\<close>; nothing is stored and no logger is registered.
\<close>

theorem create_session_alice_raises:
  "create_session (Orchestrator_init [''ws''] [''store'']) ''alice'' example_world =
     (Inl (Raise UnboundLocalError
             (''cannot access local variable '' @ [CHR 39] @ ''session_id'' @ [CHR 39]
              @ '' where it is not associated with a value'')),
      Orchestrator_init [''ws''] [''store''], example_world)
   \<and> transparency_loggers (Orchestrator_init [''ws''] [''store'']) = []
   \<and> storage example_world = Map.empty"
  by (simp add: create_session_always_raises Orchestrator_init_def example_world_def)

subsection \<open>Timeout of a local command\<close>



subsection \<open>Restoring from a checkpoint that does not exist\<close>

text \<open>
  C9, as stated: for a checkpoint id absent from the store, \<^verbatim>\<open>restore_session\<close>
  raises a not-found error to its caller.  It does not: for the id \<open>missing\<close> on an
  empty store the call returns \<^verbatim>\<open>False\<close>.
\<close>

theorem restore_session_missing_returns_False:
  "storage example_world (session_file (session_manager example_orch) ''missing'') = None
   \<and> fst (restore_session example_orch ''missing'' ''s9'' example_world) = Inr False"
  by (simp add: restore_session_def restore_from_checkpoint_def load_session_def
        example_world_def)

text \<open>
  C9, amended.  For a checkpoint id absent from the store, \<^verbatim>\<open>_load_session\<close> returns
  \<^verbatim>\<open>None\<close> without raising, \<^verbatim>\<open>SessionManager.restore_from_checkpoint\<close> raises
  \<^verbatim>\<open>ValueError\<close> (``Restore point ... not found''), and \<^verbatim>\<open>restore_session\<close> catches
  it: it logs the error and returns \<^verbatim>\<open>False\<close>, leaving the orchestrator as it was.
\<close>

theorem restore_session_checkpoint_not_found:
  "storage w (session_file (session_manager orch) rid) = None \<Longrightarrow>
   load_session (session_manager orch) rid w = (None, w) \<and>
   restore_from_checkpoint (session_manager orch) rid (workspace_root orch @ [target]) w =
     (Inl (Raise ValueError (''Restore point '' @ rid @ '' not found'')), w) \<and>
   restore_session orch rid target w =
     (Inr False, orch,
      logger_error (''Error restoring session: Restore point '' @ rid @ '' not found'') w)"
  by (simp add: load_session_def restore_from_checkpoint_def restore_session_def)

theorem restore_session_checkpoint_not_found_witness:
  "storage example_world (session_file (session_manager example_orch) ''cp1'') = None
   \<and> load_session (session_manager example_orch) ''cp1'' example_world = (None, example_world)
   \<and> restore_from_checkpoint (session_manager example_orch) ''cp1''
        (workspace_root example_orch @ [''s9'']) example_world =
       (Inl (Raise ValueError ''Restore point cp1 not found''), example_world)
   \<and> restore_session example_orch ''cp1'' ''s9'' example_world =
       (Inr False, example_orch,
        logger_error ''Error restoring session: Restore point cp1 not found'' example_world)"
  using restore_session_checkpoint_not_found [of example_world example_orch "''cp1''" "''s9''"]
  by (simp add: example_world_def)

subsection \<open>A strategy that raises\<close>








subsection \<open>Metrics after successful tasks\<close>









subsection \<open>Capturing a workspace\<close>









subsection \<open>Capture followed by restore\<close>

text \<open>
  What does hold.  A text without carriage returns is unchanged by universal newlines,
  and writing with the POSIX line separator changes nothing; the encoder is inverse
  to the decoder; so bytes that decode to a text without carriage returns are
  written back as they were.  And a restore changes no file other than those named
  in the snapshot's \<^verbatim>\<open>files\<close> map.
\<close>

lemma universal_newlines_id: "13 \<notin> set t \<Longrightarrow> universal_newlines t = t"
  by (induction t rule: universal_newlines.induct) (auto split: list.splits)

lemma write_newlines_posix: "write_newlines posix_linesep t = t"
  by (induction t) (auto simp: posix_linesep_def)

lemma is_cont_offset: "is_cont b \<Longrightarrow> \<exists>y<64. b = 128 + y"
  unfolding is_cont_def by (rule exI [of _ "b - 128"]) arith

lemma enc2:
  assumes "194 \<le> b0" "b0 < 224" "is_cont b1"
  shows "utf8_enc1 ((b0 - 192) * 64 + (b1 - 128)) = Some [b0, b1]"
proof -
  obtain y where y: "y < 64" "b1 = 128 + y"
    using is_cont_offset [OF assms(3)] by blast
  have "\<exists>x. 2 \<le> x \<and> x < 32 \<and> b0 = 192 + x"
    using assms(1,2) by (intro exI [of _ "b0 - 192"]) arith
  then obtain x where x: "2 \<le> x" "x < 32" "b0 = 192 + x"
    by blast
  show ?thesis using x(1,2) y(1) unfolding x(3) y(2) by (simp add: utf8_enc1_def)
qed


lemma enc3:
  assumes "224 \<le> b0" "b0 < 240" "is_cont b1" "is_cont b2"
    and "2048 \<le> (b0 - 224) * 4096 + (b1 - 128) * 64 + (b2 - 128)"
    and "\<not> (55296 \<le> (b0 - 224) * 4096 + (b1 - 128) * 64 + (b2 - 128)
           \<and> (b0 - 224) * 4096 + (b1 - 128) * 64 + (b2 - 128) < 57344)"
  shows "utf8_enc1 ((b0 - 224) * 4096 + (b1 - 128) * 64 + (b2 - 128)) = Some [b0, b1, b2]"
proof -
  obtain y where y: "y < 64" "b1 = 128 + y"
    using is_cont_offset [OF assms(3)] by blast
  obtain z where z: "z < 64" "b2 = 128 + z"
    using is_cont_offset [OF assms(4)] by blast
  have "\<exists>x. x < 16 \<and> b0 = 224 + x"
    using assms(1,2) by (intro exI [of _ "b0 - 224"]) arith
  then obtain x where x: "x < 16" "b0 = 224 + x"
    by blast
  let ?cp = "x * 4096 + y * 64 + z"
  have d1: "?cp div 4096 = x"
    using y(1) z(1) by simp
  have d2: "?cp div 64 = x * 64 + y"
    using z(1) by simp
  have d3: "(x * 64 + y) mod 64 = y"
    using y(1) by simp
  have "?cp mod 64 = (z + 64 * (x * 64 + y)) mod 64"
    by (simp add: algebra_simps)
  also have "\<dots> = z mod 64"
    by (rule mod_mult_self2)
  finally have d4: "?cp mod 64 = z"
    using z(1) by simp
  have lt: "?cp < 65536"
    using x(1) y(1) z(1) by simp
  have ge: "2048 \<le> ?cp" and ns: "\<not> (55296 \<le> ?cp \<and> ?cp < 57344)"
    using assms(5,6) unfolding x(2) y(2) z(2) by simp_all
  have "utf8_enc1 ?cp = Some [224 + x, 128 + y, 128 + z]"
    using ge ns lt y(1) by (simp add: utf8_enc1_def d1 d2 d3 d4)
  then show ?thesis
    unfolding x(2) y(2) z(2) by simp
qed


lemma enc4:
  assumes "240 \<le> b0" "b0 < 245" "is_cont b1" "is_cont b2" "is_cont b3"
    and "65536 \<le> (b0 - 240) * 262144 + (b1 - 128) * 4096 + (b2 - 128) * 64 + (b3 - 128)"
    and "(b0 - 240) * 262144 + (b1 - 128) * 4096 + (b2 - 128) * 64 + (b3 - 128) < 1114112"
  shows "utf8_enc1 ((b0 - 240) * 262144 + (b1 - 128) * 4096 + (b2 - 128) * 64 + (b3 - 128))
           = Some [b0, b1, b2, b3]"
proof -
  obtain y where y: "y < 64" "b1 = 128 + y"
    using is_cont_offset [OF assms(3)] by blast
  obtain z where z: "z < 64" "b2 = 128 + z"
    using is_cont_offset [OF assms(4)] by blast
  obtain u where u: "u < 64" "b3 = 128 + u"
    using is_cont_offset [OF assms(5)] by blast
  have "\<exists>x. x < 5 \<and> b0 = 240 + x"
    using assms(1,2) by (intro exI [of _ "b0 - 240"]) arith
  then obtain x where x: "x < 5" "b0 = 240 + x"
    by blast
  let ?cp = "x * 262144 + y * 4096 + z * 64 + u"
  have d1: "?cp div 262144 = x"
    using y(1) z(1) u(1) by simp
  have d2: "?cp div 4096 = x * 64 + y"
    using z(1) u(1) by simp
  have d3: "?cp div 64 = x * 4096 + y * 64 + z"
    using u(1) by simp
  have "?cp mod 64 = (u + 64 * ((x * 64 + y) * 64 + z)) mod 64"
    by (simp add: algebra_simps)
  also have "\<dots> = u mod 64"
    by (rule mod_mult_self2)
  finally have d4: "?cp mod 64 = u"
    using u(1) by simp
  have d5: "(x * 64 + y) mod 64 = y"
    using y(1) by simp
  have "(x * 4096 + y * 64 + z) mod 64 = (z + 64 * (x * 64 + y)) mod 64"
    by (simp add: algebra_simps)
  also have "\<dots> = z mod 64"
    by (rule mod_mult_self2)
  finally have d6: "(x * 4096 + y * 64 + z) mod 64 = z"
    using z(1) by simp
  have ge: "65536 \<le> ?cp" and lt: "?cp < 1114112"
    using assms(6,7) unfolding x(2) y(2) z(2) u(2) by simp_all
  have "utf8_enc1 ?cp = Some [240 + x, 128 + y, 128 + z, 128 + u]"
    using ge lt y(1) z(1) by (simp add: utf8_enc1_def d1 d2 d3 d4 d5 d6)
  then show ?thesis
    unfolding x(2) y(2) z(2) u(2) by simp
qed


lemma utf8_enc_dec: "utf8_dec bs = Some t \<Longrightarrow> utf8_enc t = Some bs"
proof (induction bs arbitrary: t rule: utf8_dec.induct)
  case 1
  then show ?case by simp
next
  case (2 b0 bs)
  consider (a) "b0 < 128" | (b) "194 \<le> b0" "b0 < 224" | (c) "224 \<le> b0" "b0 < 240"
    | (d) "240 \<le> b0" "b0 < 245" | (e) "128 \<le> b0" "b0 < 194" | (f) "245 \<le> b0"
    by linarith
  then show ?case
  proof cases
    case a
    with "2.prems" obtain t' where t': "utf8_dec bs = Some t'" "t = b0 # t'"
      by auto
    with "2.IH"(1) [OF a t'(1)] a show ?thesis
      by (simp add: utf8_enc1_def)
  next
    case b
    with "2.prems" obtain b1 r t' where bs: "bs = b1 # r" "is_cont b1"
      and t': "utf8_dec r = Some t'" "t = ((b0 - 192) * 64 + (b1 - 128)) # t'"
      by (auto split: list.splits if_splits)
    have "utf8_enc t' = Some r"
      using "2.IH"(2) [of b1 r t'] b bs t'(1) by simp
    with enc2 [OF b bs(2)] show ?thesis
      by (simp add: bs t')
  next
    case c
    with "2.prems" obtain b1 b2 r t' where bs: "bs = b1 # b2 # r" "is_cont b1" "is_cont b2"
      and cp: "2048 \<le> (b0 - 224) * 4096 + (b1 - 128) * 64 + (b2 - 128)"
        "\<not> (55296 \<le> (b0 - 224) * 4096 + (b1 - 128) * 64 + (b2 - 128)
           \<and> (b0 - 224) * 4096 + (b1 - 128) * 64 + (b2 - 128) < 57344)"
      and t': "utf8_dec r = Some t'" "t = ((b0 - 224) * 4096 + (b1 - 128) * 64 + (b2 - 128)) # t'"
      by (auto simp: Let_def split: list.splits if_splits)
    have "utf8_enc t' = Some r"
      using "2.IH"(3) [of b1 "b2 # r" b2 r _ t'] c bs cp t'(1) by (simp add: Let_def)
    with enc3 [OF c bs(2,3) cp] show ?thesis
      by (simp add: bs t')
  next
    case d
    with "2.prems" obtain b1 b2 b3 r t' where bs: "bs = b1 # b2 # b3 # r"
        "is_cont b1" "is_cont b2" "is_cont b3"
      and cp: "65536 \<le> (b0 - 240) * 262144 + (b1 - 128) * 4096 + (b2 - 128) * 64 + (b3 - 128)"
        "(b0 - 240) * 262144 + (b1 - 128) * 4096 + (b2 - 128) * 64 + (b3 - 128) < 1114112"
      and t': "utf8_dec r = Some t'"
        "t = ((b0 - 240) * 262144 + (b1 - 128) * 4096 + (b2 - 128) * 64 + (b3 - 128)) # t'"
      by (auto simp: Let_def split: list.splits if_splits)
    have "utf8_enc t' = Some r"
      using "2.IH"(4) [of b1 "b2 # b3 # r" b2 "b3 # r" b3 r _ t'] d bs cp t'(1)
      by (simp add: Let_def)
    with enc4 [OF d bs(2,3,4) cp] show ?thesis
      by (simp add: bs t')
  next
    case e
    with "2.prems" show ?thesis by simp
  next
    case f
    with "2.prems" show ?thesis by simp
  qed
qed

lemma text_roundtrip_without_cr:
  assumes "utf8_decode bs = Some t" and "13 \<notin> set t"
  shows "utf8_encode (write_newlines posix_linesep (universal_newlines t)) = Some bs"
proof -
  have "utf8_enc t = Some (map unat bs)"
    using assms(1) utf8_enc_dec by (simp add: utf8_decode_def)
  then show ?thesis
    using assms(2)
    by (simp add: utf8_encode_def universal_newlines_id write_newlines_posix o_def)
qed

lemma mkdir_parents_files: "fs_files (snd (mkdir_parents p w)) = fs_files w"
  by (simp add: mkdir_parents_def)

lemma write_text_files: "q \<noteq> p \<Longrightarrow> fs_files (snd (write_text p content w)) q = fs_files w q"
  by (simp add: write_text_def split: option.splits)

lemma restore_files_only_snapshot_paths:
  "fs_files (snd (restore_files target files w)) q \<noteq> fs_files w q \<Longrightarrow>
   q \<in> (\<lambda>p. target @ p) ` fst ` set files"
proof (induction files arbitrary: w)
  case Nil
  then show ?case by simp
next
  case (Cons f files)
  obtain p content where f: "f = (p, content)" by (cases f)
  obtain r1 w1 where mk: "mkdir_parents (butlast (target @ p)) w = (r1, w1)"
    by (cases "mkdir_parents (butlast (target @ p)) w") auto
  obtain r2 w2 where wr: "write_text (target @ p) content w1 = (r2, w2)"
    by (cases "write_text (target @ p) content w1") auto
  have w1: "fs_files w1 = fs_files w"
    using mkdir_parents_files [of "butlast (target @ p)" w] mk by simp
  show ?case
  proof (cases "q = target @ p")
    case True
    then show ?thesis by (simp add: f)
  next
    case False
    have w2: "fs_files w2 q = fs_files w q"
      using write_text_files [OF False, of content w1] wr w1 by simp
    have "fs_files (snd (restore_files target files w2)) q \<noteq> fs_files w2 q"
      using Cons.prems w2 w1 by (auto simp: f mk wr Let_def split: sum.splits)
    from Cons.IH [OF this] show ?thesis by (simp add: f)
  qed
qed

lemma restore_workspace_only_snapshot_paths:
  "fs_files (snd (restore_workspace (Some snap) target w)) q \<noteq> fs_files w q \<Longrightarrow>
   q \<in> (\<lambda>p. target @ p) ` fst ` set (snap_files snap)"
proof -
  assume ch: "fs_files (snd (restore_workspace (Some snap) target w)) q \<noteq> fs_files w q"
  obtain r1 w1 where mk: "mkdir_parents target w = (r1, w1)"
    by (cases "mkdir_parents target w") auto
  have w1: "fs_files w1 = fs_files w"
    using mkdir_parents_files [of target w] mk by simp
  have "fs_files (snd (restore_files target (snap_files snap) w1)) q \<noteq> fs_files w1 q"
    using ch w1
    by (auto simp: restore_workspace_def mk logger_error_def split: sum.splits prod.splits)
  then show ?thesis
    by (rule restore_files_only_snapshot_paths)
qed

text \<open>
  C4.  The claim is that capturing small text files and restoring them into an empty
  target writes byte-identical content.  The workspace holds \<^verbatim>\<open>a.txt\<close> with the four
  bytes \<^verbatim>\<open>68 69 0D 0A\<close> (valid UTF-8, far below 1 MiB).  Capture reads it in text mode,
  which turns the line ending into a single line feed, and restore on a POSIX system
  writes the three bytes \<^verbatim>\<open>68 69 0A\<close>.
\<close>

theorem capture_restore_crlf_not_identical:
  "rglob_of crlf_world [''ws''] =
     [\<lparr>e_path = [''a.txt''], e_is_file = True, e_is_dir = False, e_size = 4,
       e_read = ReadBytes [104, 105, 13, 10]\<rparr>]
   \<and> fs_files crlf_world = Map.empty
   \<and> utf8_decode [104, 105, 13, 10] = Some [104, 105, 13, 10]
   \<and> snap_files (fst (capture_workspace [''ws''] crlf_world)) = [([''a.txt''], [104, 105, 10])]
   \<and> fs_files (snd (restore_workspace (Some (fst (capture_workspace [''ws''] crlf_world)))
                        [''target''] (snd (capture_workspace [''ws''] crlf_world))))
        [''target'', ''a.txt''] = Some [104, 105, 10]"
  by (simp add: capture_workspace_def crlf_world_def example_world_def datetime_now_def
        read_text_def logger_error_def Let_def restore_workspace_def mkdir_parents_def
        write_text_def utf8_decode_def utf8_encode_def utf8_enc1_def posix_linesep_def
        is_cont_def)

end
